theory Spec2Isabelle
  imports Complex_Main
begin

section \<open>Strings\<close>

text \<open>
  A Python \<open>str\<close> is a sequence of Unicode code points. The column headers of the
  import contain U+0131, which is no 8-bit character, so a string is modelled as the list
  of its code points.
\<close>

type_synonym pystr = "nat list"

definition ascii :: "string \<Rightarrow> pystr" where
  "ascii s = map of_char s"

text \<open>\<open>str.isspace\<close> on one code point: the white space table of CPython.\<close>

definition isspace :: "nat \<Rightarrow> bool" where
  "isspace c \<longleftrightarrow>
     (9 \<le> c \<and> c \<le> 13) \<or> (28 \<le> c \<and> c \<le> 32) \<or> c = 133 \<or> c = 160 \<or> c = 5760 \<or>
     (8192 \<le> c \<and> c \<le> 8202) \<or> c = 8232 \<or> c = 8233 \<or> c = 8239 \<or> c = 8287 \<or> c = 12288"

text \<open>\<open>str.strip()\<close> with no argument: white space is removed at both ends.\<close>

definition strip :: "pystr \<Rightarrow> pystr" where
  "strip s = rev (dropWhile isspace (rev (dropWhile isspace s)))"

text \<open>\<open>s.endswith(suffix)\<close>.\<close>

definition endswith :: "pystr \<Rightarrow> pystr \<Rightarrow> bool" where
  "endswith s suffix \<longleftrightarrow>
     length suffix \<le> length s \<and> drop (length s - length suffix) s = suffix"


section \<open>The tables (models.py)\<close>

text \<open>
  \<open>Product\<close> and \<open>Color\<close> rows. The price is a Python float that the program only stores
  and returns, so its type is left open as \<open>'p\<close>. A table is the list of its rows in
  insertion order.
\<close>

record product =
  prod_id :: int
  prod_name :: pystr

record 'p color =
  color_id :: int
  color_name :: pystr
  product_id :: int
  price :: 'p
  currency :: pystr

record 'p store =
  products :: "product list"
  colors :: "'p color list"

text \<open>
  The integer primary key of a new row: one more than the largest key of the table,
  1 in an empty table.
\<close>

definition next_id :: "int list \<Rightarrow> int" where
  "next_id ids = fold max ids 0 + 1"


section \<open>Requests, replies and errors (main.py)\<close>

record ProductCreate =
  pc_name :: pystr

record 'p ColorCreate =
  cc_product_id :: int
  cc_name :: pystr
  cc_price :: 'p
  cc_currency :: pystr

record 'p ColorUpdate =
  cu_name :: pystr
  cu_price :: 'p
  cu_currency :: pystr

text \<open>The \<open>detail\<close> texts of the HTTPExceptions that main.py raises, one constructor each.\<close>

datatype detail =
    Urun_bulunamadi
  | Renk_bulunamadi
  | Xlsx_formatinda_degil
  | Excel_okunamadi pystr
  | Eksik_sutun

text \<open>
  What a handler can raise: an \<open>HTTPException\<close> of its own with a status code, the
  store's \<open>IntegrityError\<close> when a constraint of models.py rejects a write, and the
  store's \<open>OperationalError\<close> when a call to the store fails for a reason outside the
  program. No handler catches the last two.
\<close>

datatype error =
    HTTPException nat detail
  | IntegrityError
  | OperationalError

text \<open>
  The status the client sees: the code of an \<open>HTTPException\<close>, and 500 for an
  exception that leaves the handler uncaught.
\<close>

fun status_code :: "error \<Rightarrow> nat" where
  "status_code (HTTPException code d) = code"
| "status_code IntegrityError = 500"
| "status_code OperationalError = 500"

datatype message =
    Urun_eklendi
  | Renk_eklendi
  | Renk_guncellendi
  | Urun_silindi
  | Excel_yuklendi

text \<open>The JSON object a handler returns: the message and, where it has one, the new id.\<close>

datatype reply = Reply message "int option"

text \<open>
  A handler takes the request and the committed store, and returns what the client gets
  together with the committed store afterwards. The session of a request that raises is
  closed without a commit, so the store keeps what was committed before.
\<close>

type_synonym 'p outcome = "(error + reply) \<times> 'p store"

text \<open>
  \<open>add_product\<close> (main.py 71-77). \<open>Product.name\<close> is declared \<open>unique=True\<close>: the
  commit of a second row with a name that is present raises \<open>IntegrityError\<close>.
\<close>

definition add_product :: "ProductCreate \<Rightarrow> 'p store \<Rightarrow> 'p outcome" where
  "add_product product db =
     (let new_product = \<lparr>prod_id = next_id (map prod_id (products db)),
                         prod_name = pc_name product\<rparr>
      in if pc_name product \<in> set (map prod_name (products db))
         then (Inl IntegrityError, db)
         else (Inr (Reply Urun_eklendi (Some (prod_id new_product))),
               db\<lparr>products := products db @ [new_product]\<rparr>))"

text \<open>\<open>add_color\<close> (main.py 94-110).\<close>

definition add_color :: "'p ColorCreate \<Rightarrow> 'p store \<Rightarrow> 'p outcome" where
  "add_color color db =
     (case find (\<lambda>p. prod_id p = cc_product_id color) (products db) of
        None \<Rightarrow> (Inl (HTTPException 404 Urun_bulunamadi), db)
      | Some product \<Rightarrow>
          let new_color = \<lparr>color_id = next_id (map color_id (colors db)),
                           color_name = cc_name color,
                           product_id = cc_product_id color,
                           price = cc_price color,
                           currency = cc_currency color\<rparr>
          in (Inr (Reply Renk_eklendi (Some (color_id new_color))),
              db\<lparr>colors := colors db @ [new_color]\<rparr>))"

text \<open>
  \<open>update_color\<close> (main.py 124-135): the row with the primary key \<open>color_id\<close> gets the
  three fields of the request.
\<close>

definition update_color :: "int \<Rightarrow> 'p ColorUpdate \<Rightarrow> 'p store \<Rightarrow> 'p outcome" where
  "update_color cid color db =
     (case find (\<lambda>c. color_id c = cid) (colors db) of
        None \<Rightarrow> (Inl (HTTPException 404 Renk_bulunamadi), db)
      | Some existing_color \<Rightarrow>
          (Inr (Reply Renk_guncellendi None),
           db\<lparr>colors := map (\<lambda>c. if color_id c = cid
                                    then c\<lparr>color_name := cu_name color,
                                           price := cu_price color,
                                           currency := cu_currency color\<rparr>
                                    else c) (colors db)\<rparr>))"

text \<open>
  \<open>delete_product\<close> (main.py 138-146). The relationship \<open>Product.colors\<close> is declared
  with \<open>cascade="all, delete"\<close> (models.py 10): deleting the product deletes the colors
  whose \<open>product_id\<close> is its id.
\<close>

definition delete_product :: "int \<Rightarrow> 'p store \<Rightarrow> 'p outcome" where
  "delete_product pid db =
     (case find (\<lambda>p. prod_id p = pid) (products db) of
        None \<Rightarrow> (Inl (HTTPException 404 Urun_bulunamadi), db)
      | Some product \<Rightarrow>
          (Inr (Reply Urun_silindi None),
           \<lparr>products = filter (\<lambda>p. prod_id p \<noteq> prod_id product) (products db),
            colors = filter (\<lambda>c. product_id c \<noteq> prod_id product) (colors db)\<rparr>))"


section \<open>The Excel import (main.py 160-209)\<close>

text \<open>
  A cell of a text column as pandas holds it after \<open>read_excel\<close>: missing (NaN), a string,
  or a number of type \<open>'n\<close>. A cell of the price column is missing or a number.
\<close>

datatype 'n cell = NaN | Str pystr | Num 'n

text \<open>
  A row of the DataFrame, read under the four required headers, and the DataFrame: its
  column labels and its rows.
\<close>

record ('n, 'p) xlrow =
  urun_adi_cell :: "'n cell"
  renk_cell :: "'n cell"
  fiyat_cell :: "'p option"
  para_birimi_cell :: "'n cell"

record ('n, 'p) dataframe =
  columns :: "pystr list"
  rows :: "('n, 'p) xlrow list"

record 'b UploadFile =
  filename :: pystr
  contents :: 'b

text \<open>
  The four labels of main.py 173 as code points: the product name (U+00DC r U+00FC n,
  space, A d U+0131), \<open>"Renk"\<close>, \<open>"Fiyat"\<close> and \<open>"Para Birimi"\<close>.
\<close>

definition urun_adi_label :: pystr where
  "urun_adi_label = [220, 114, 252, 110, 32, 65, 100, 305]"

definition renk_label :: pystr where
  "renk_label = ascii ''Renk''"

definition fiyat_label :: pystr where
  "fiyat_label = ascii ''Fiyat''"

definition para_birimi_label :: pystr where
  "para_birimi_label = ascii ''Para Birimi''"

definition required_columns :: "pystr list" where
  "required_columns = [urun_adi_label, renk_label, fiyat_label, para_birimi_label]"

text \<open>
  \<open>dropna(subset=[...])\<close> (main.py 178): a row with a missing cell in one of the four
  columns is removed.
\<close>

definition complete_row :: "('n, 'p) xlrow \<Rightarrow> bool" where
  "complete_row r \<longleftrightarrow>
     urun_adi_cell r \<noteq> NaN \<and> renk_cell r \<noteq> NaN \<and> fiyat_cell r \<noteq> None \<and>
     para_birimi_cell r \<noteq> NaN"

definition dropna :: "('n, 'p) xlrow list \<Rightarrow> ('n, 'p) xlrow list" where
  "dropna rs = filter complete_row rs"

text \<open>
  \<open>astype(str)\<close> on one cell: a string stays, a number is rendered by Python's \<open>str\<close>,
  given as \<open>py_str\<close>, and a missing value would be rendered as \<open>"nan"\<close>.
\<close>

fun astype_str :: "('n \<Rightarrow> pystr) \<Rightarrow> 'n cell \<Rightarrow> pystr" where
  "astype_str py_str (Str s) = s"
| "astype_str py_str (Num n) = py_str n"
| "astype_str py_str NaN = ascii ''nan''"

text \<open>
  A row as the loop reads it, after main.py 179-181. The loop reads only rows that
  \<open>dropna\<close> kept, so the price cell it reads holds a value.
\<close>

record 'p row =
  urun_adi :: pystr
  renk :: pystr
  fiyat :: 'p
  para_birimi :: pystr

definition normalize :: "('n \<Rightarrow> pystr) \<Rightarrow> ('n, 'p) xlrow \<Rightarrow> 'p row" where
  "normalize py_str r =
     \<lparr>urun_adi = strip (astype_str py_str (urun_adi_cell r)),
      renk = strip (astype_str py_str (renk_cell r)),
      fiyat = the (fiyat_cell r),
      para_birimi = strip (astype_str py_str (para_birimi_cell r))\<rparr>"

text \<open>
  The session of the request: \<open>committed\<close> is the store as the database holds it for
  every session, \<open>view\<close> is the store with the rows this session has added and not yet
  committed.
\<close>

record 'p session =
  committed :: "'p store"
  view :: "'p store"

definition commit :: "'p session \<Rightarrow> 'p session" where
  "commit s = s\<lparr>committed := view s\<rparr>"

text \<open>
  Modelled from the spec: the \<open>autoflush\<close> setting of \<open>SessionLocal\<close>, which database.py
  defines and which is not among the sources. The spec has the colour check of a row see
  the Colors that earlier rows of the same import added ("Check whether a Color with the
  exact (post-trim) name already exists under that Product identifier", and its import
  example, where the second "Red" row is dropped): a session that flushes its pending rows
  before each query.
\<close>

definition session_autoflush :: bool where
  "session_autoflush = True"

text \<open>
  What a query of the session reads. main.py does not flush between \<open>db.add\<close> (206) and
  the query of the next row (192): a session with \<open>autoflush\<close> flushes the pending rows
  before the query, which then reads the view; a session without it reads what is
  committed.
\<close>

definition visible :: "bool \<Rightarrow> 'p session \<Rightarrow> 'p store" where
  "visible autoflush s = (if autoflush then view s else committed s)"

text \<open>
  The calls to the store in the body of the loop, in their order: the product query (184),
  the commit and the refresh of a new product (188, 189), the colour query (192). Any of
  them can raise; so can the commit after the loop (208). A fault names the call that
  raises: a call of the row with the given index, counted from 0 among the rows the loop
  visits, or the final commit. When the row does not make the call (it made no new
  product), nothing raises.
\<close>

datatype site = Product_query | Product_commit | Product_refresh | Color_query

datatype fault = At_row nat site | Final_commit

text \<open>
  The product of the row (main.py 184-189), looked up by name; a missing one is added and
  committed at once, which commits the colors added so far as well. \<open>fails\<close> is the
  call of this row that raises, if any. A commit that raises commits nothing.
\<close>

definition resolve_product ::
  "bool \<Rightarrow> site option \<Rightarrow> pystr \<Rightarrow> 'p session \<Rightarrow> (error + product) \<times> 'p session" where
  "resolve_product autoflush fails nm s =
     (if fails = Some Product_query then (Inl OperationalError, s)
      else case find (\<lambda>p. prod_name p = nm) (products (visible autoflush s)) of
        Some product \<Rightarrow> (Inr product, s)
      | None \<Rightarrow>
          let product = \<lparr>prod_id = next_id (map prod_id (products (view s))), prod_name = nm\<rparr>;
              s1 = commit (s\<lparr>view := (view s)\<lparr>products := products (view s) @ [product]\<rparr>\<rparr>)
          in if fails = Some Product_commit then (Inl OperationalError, s)
             else if fails = Some Product_refresh then (Inl OperationalError, s1)
             else (Inr product, s1))"

text \<open>
  The body of the loop (main.py 184-206) for one row: the error, if a call raised, and
  the session as the row leaves it.
\<close>

definition upsert_row ::
  "bool \<Rightarrow> site option \<Rightarrow> 'p row \<Rightarrow> 'p session \<Rightarrow> error option \<times> 'p session" where
  "upsert_row autoflush fails r s =
     (case resolve_product autoflush fails (urun_adi r) s of
        (Inl e, s1) \<Rightarrow> (Some e, s1)
      | (Inr product, s1) \<Rightarrow>
          if fails = Some Color_query then (Some OperationalError, s1)
          else (case find (\<lambda>c. color_name c = renk r \<and> product_id c = prod_id product)
                          (colors (visible autoflush s1)) of
                  Some color_exists \<Rightarrow> (None, s1)
                | None \<Rightarrow>
                    let new_color = \<lparr>color_id = next_id (map color_id (colors (view s1))),
                                     color_name = renk r,
                                     product_id = prod_id product,
                                     price = fiyat r,
                                     currency = para_birimi r\<rparr>
                    in (None, s1\<lparr>view := (view s1)\<lparr>colors := colors (view s1) @ [new_color]\<rparr>\<rparr>)))"

text \<open>The call of the first row that raises, and the fault as the rows after it see it.\<close>

fun fails_here :: "fault option \<Rightarrow> site option" where
  "fails_here (Some (At_row 0 call)) = Some call"
| "fails_here store_fault = None"

fun fault_after :: "fault option \<Rightarrow> fault option" where
  "fault_after (Some (At_row (Suc k) call)) = Some (At_row k call)"
| "fault_after (Some (At_row 0 call)) = None"
| "fault_after (Some Final_commit) = Some Final_commit"
| "fault_after None = None"

text \<open>
  The loop over the rows (main.py 183). It has no \<open>try\<close>: an exception ends it, with
  the session as it is.
\<close>

fun import_rows ::
  "bool \<Rightarrow> fault option \<Rightarrow> 'p row list \<Rightarrow> 'p session \<Rightarrow> error option \<times> 'p session" where
  "import_rows autoflush store_fault [] s = (None, s)"
| "import_rows autoflush store_fault (r # rs) s =
     (case upsert_row autoflush (fails_here store_fault) r s of
        (Some e, s1) \<Rightarrow> (Some e, s1)
      | (None, s1) \<Rightarrow> import_rows autoflush (fault_after store_fault) rs s1)"

text \<open>
  \<open>upload_excel\<close> (main.py 160-209). \<open>read_excel\<close> stands for \<open>pd.read_excel\<close>, which
  returns the DataFrame or raises with a text. The session of a request that raises is
  closed without a commit: the store keeps what was committed.
\<close>

definition upload_excel ::
  "('b \<Rightarrow> pystr + ('n, 'p) dataframe) \<Rightarrow> ('n \<Rightarrow> pystr) \<Rightarrow> bool \<Rightarrow> fault option \<Rightarrow>
   'b UploadFile \<Rightarrow> 'p store \<Rightarrow> 'p outcome" where
  "upload_excel read_excel py_str autoflush store_fault file db =
     (if \<not> endswith (filename file) (ascii ''.xlsx'')
      then (Inl (HTTPException 400 Xlsx_formatinda_degil), db)
      else case read_excel (contents file) of
        Inl e \<Rightarrow> (Inl (HTTPException 400 (Excel_okunamadi e)), db)
      | Inr df \<Rightarrow>
          let excel_data = df\<lparr>columns := map strip (columns df)\<rparr>
          in if \<not> set required_columns \<subseteq> set (columns excel_data)
             then (Inl (HTTPException 400 Eksik_sutun), db)
             else (case import_rows autoflush store_fault
                          (map (normalize py_str) (dropna (rows excel_data)))
                          \<lparr>committed = db, view = db\<rparr> of
                     (Some e, s) \<Rightarrow> (Inl e, committed s)
                   | (None, s) \<Rightarrow>
                       if store_fault = Some Final_commit
                       then (Inl OperationalError, committed s)
                       else (Inr (Reply Excel_yuklendi None), committed (commit s))))"

text \<open>
  The three checks of main.py 162-175 passed: the file name ends in \<open>.xlsx\<close>,
  \<open>read_excel\<close> returned the DataFrame \<open>df\<close>, and the required labels are among the
  stripped column labels.
\<close>

definition accepted ::
  "('b \<Rightarrow> pystr + ('n, 'p) dataframe) \<Rightarrow> 'b UploadFile \<Rightarrow> ('n, 'p) dataframe \<Rightarrow> bool" where
  "accepted read_excel file df \<longleftrightarrow>
     endswith (filename file) (ascii ''.xlsx'') \<and> read_excel (contents file) = Inr df \<and>
     set required_columns \<subseteq> set (map strip (columns df))"



text \<open>
  Python's \<open>str\<close> on an integer, for spreadsheets whose numeric cells hold integers:
  the decimal digits, after a minus sign for a negative number.
\<close>

fun digits :: "nat \<Rightarrow> pystr" where
  "digits n = (if n < 10 then [48 + n] else digits (n div 10) @ [48 + n mod 10])"

declare digits.simps [simp del]

definition str_int :: "int \<Rightarrow> pystr" where
  "str_int i = (if i < 0 then 45 # digits (nat (- i)) else digits (nat i))"






section \<open>Concrete stores and spreadsheets\<close>

definition shirt :: product where
  "shirt = \<lparr>prod_id = 1, prod_name = ascii ''Shirt''\<rparr>"

definition pants :: product where
  "pants = \<lparr>prod_id = 2, prod_name = ascii ''Pants''\<rparr>"

definition red :: "real color" where
  "red = \<lparr>color_id = 1, color_name = ascii ''Red'', product_id = 1, price = 10,
          currency = ascii ''USD''\<rparr>"

definition blue :: "real color" where
  "blue = \<lparr>color_id = 2, color_name = ascii ''Blue'', product_id = 1, price = 10,
           currency = ascii ''USD''\<rparr>"

definition black :: "real color" where
  "black = \<lparr>color_id = 3, color_name = ascii ''Black'', product_id = 2, price = 25,
            currency = ascii ''TRY''\<rparr>"

definition empty_store :: "real store" where
  "empty_store = \<lparr>products = [], colors = []\<rparr>"

definition shirt_store :: "real store" where
  "shirt_store = \<lparr>products = [shirt], colors = []\<rparr>"

definition shop :: "real store" where
  "shop = \<lparr>products = [shirt, pants], colors = [red, blue, black]\<rparr>"

definition xl :: "pystr \<Rightarrow> pystr \<Rightarrow> real \<Rightarrow> pystr \<Rightarrow> (int, real) xlrow" where
  "xl p c f cur =
     \<lparr>urun_adi_cell = Str p, renk_cell = Str c, fiyat_cell = Some f, para_birimi_cell = Str cur\<rparr>"

definition shirt_frame :: "(int, real) dataframe" where
  "shirt_frame =
     \<lparr>columns = [urun_adi_label, renk_label, fiyat_label, para_birimi_label],
      rows = [xl (ascii ''Shirt'') (ascii ''Red'') 10 (ascii ''USD''),
              xl (ascii ''Shirt'') (ascii ''Red'') 12 (ascii ''EUR''),
              xl (ascii ''Shirt'') (ascii ''Blue'') 10 (ascii ''USD'')]\<rparr>"

definition urunler_xlsx :: "unit UploadFile" where
  "urunler_xlsx = \<lparr>filename = ascii ''urunler.xlsx'', contents = ()\<rparr>"






definition no_currency_frame :: "(int, real) dataframe" where
  "no_currency_frame =
     \<lparr>columns = [urun_adi_label, renk_label, fiyat_label],
      rows = [xl (ascii ''Shirt'') (ascii ''Red'') 10 (ascii ''USD'')]\<rparr>"





section \<open>Facts about the store\<close>




lemma find_None_image: "find (\<lambda>x. f x = k) xs = None \<longleftrightarrow> k \<notin> f ` set xs"
  by (auto simp: find_None_iff)

lemma find_Some_image:
  assumes "k \<in> f ` set xs"
  shows "\<exists>x. find (\<lambda>x. f x = k) xs = Some x \<and> x \<in> set xs \<and> f x = k"
proof -
  from assms have "find (\<lambda>x. f x = k) xs \<noteq> None" by (simp add: find_None_image)
  then obtain x where x: "find (\<lambda>x. f x = k) xs = Some x" by auto
  then have "x \<in> set xs \<and> f x = k" by (auto simp: find_Some_iff)
  with x show ?thesis by blast
qed

lemmas concrete_defs =
  shirt_def pants_def red_def blue_def black_def empty_store_def shop_def xl_def
  shirt_frame_def urunler_xlsx_def ascii_def

lemmas import_defs =
  upload_excel_def endswith_def required_columns_def urun_adi_label_def renk_label_def
  fiyat_label_def para_birimi_label_def strip_def isspace_def dropna_def complete_row_def
  normalize_def upsert_row_def resolve_product_def commit_def next_id_def Let_def
  visible_def session_autoflush_def


section \<open>The request handlers\<close>

text \<open>
  C3, as amended. A \<open>POST /products/\<close> with the name of an existing Product fails and
  creates no second Product. The failure is the store's uniqueness violation, which
  \<open>add_product\<close> does not catch: the client sees status 500, not a 409.
\<close>

theorem add_product_duplicate:
  "pc_name product \<in> prod_name ` set (products db) \<Longrightarrow>
     \<exists>e. add_product product db = (Inl e, db) \<and> e = IntegrityError \<and> status_code e = 500"
  by (simp add: add_product_def)

theorem add_product_duplicate_witness:
  "ascii ''Shirt'' \<in> prod_name ` set (products shirt_store) \<and>
   add_product \<lparr>pc_name = ascii ''Shirt''\<rparr> shirt_store = (Inl IntegrityError, shirt_store)"
  using add_product_duplicate [of "\<lparr>pc_name = ascii ''Shirt''\<rparr>" shirt_store]
  by (simp add: shirt_store_def concrete_defs)

text \<open>
  C3 as the claim states it fails: the second \<open>POST /products/\<close> for "Shirt" ends in
  the uncaught \<open>IntegrityError\<close>, status 500, which is no client error and no 409.
\<close>

theorem add_product_duplicate_not_client_error:
  "fst (add_product \<lparr>pc_name = ascii ''Shirt''\<rparr> shirt_store) = Inl IntegrityError \<and>
   status_code IntegrityError = 500"
  by (simp add: add_product_def shirt_store_def concrete_defs)

text \<open>
  C6. A \<open>POST /colors/\<close> whose \<open>product_id\<close> is the id of no Product fails with status
  404 and leaves the store as it was: no Color row is created.
\<close>

theorem add_color_unknown_product:
  assumes "cc_product_id color \<notin> prod_id ` set (products db)"
  shows "add_color color db = (Inl (HTTPException 404 Urun_bulunamadi), db) \<and>
         status_code (HTTPException 404 Urun_bulunamadi) = 404"
proof -
  from assms have "find (\<lambda>p. prod_id p = cc_product_id color) (products db) = None"
    by (simp add: find_None_image)
  then show ?thesis by (simp add: add_color_def)
qed

theorem add_color_unknown_product_witness:
  "7 \<notin> prod_id ` set (products shop) \<and>
   add_color \<lparr>cc_product_id = 7, cc_name = ascii ''Red'', cc_price = 10,
              cc_currency = ascii ''USD''\<rparr> shop
     = (Inl (HTTPException 404 Urun_bulunamadi), shop)"
  using add_color_unknown_product
    [of "\<lparr>cc_product_id = 7, cc_name = ascii ''Red'', cc_price = 10,
          cc_currency = ascii ''USD''\<rparr>" shop]
  by (simp add: concrete_defs)

text \<open>
  C7. \<open>DELETE /products/{id}\<close> for the id of an existing Product succeeds; afterwards no
  Product has that id and no Color has it as \<open>product_id\<close>, and the rows that remain are
  the other rows, unchanged and in their order. For an id of no Product it fails with
  status 404 and deletes nothing.
\<close>

theorem delete_product_cascade:
  assumes "delete_product pid db = (res, db')"
  shows "(pid \<in> prod_id ` set (products db) \<longrightarrow>
            res = Inr (Reply Urun_silindi None) \<and>
            pid \<notin> prod_id ` set (products db') \<and>
            pid \<notin> product_id ` set (colors db') \<and>
            products db' = filter (\<lambda>p. prod_id p \<noteq> pid) (products db) \<and>
            colors db' = filter (\<lambda>c. product_id c \<noteq> pid) (colors db)) \<and>
         (pid \<notin> prod_id ` set (products db) \<longrightarrow>
            res = Inl (HTTPException 404 Urun_bulunamadi) \<and>
            status_code (HTTPException 404 Urun_bulunamadi) = 404 \<and> db' = db)"
proof (cases "pid \<in> prod_id ` set (products db)")
  case True
  then obtain p where p: "find (\<lambda>p. prod_id p = pid) (products db) = Some p" "prod_id p = pid"
    using find_Some_image [of pid prod_id "products db"] by blast
  with assms have "res = Inr (Reply Urun_silindi None)"
    and db': "db' = \<lparr>products = filter (\<lambda>p. prod_id p \<noteq> pid) (products db),
                      colors = filter (\<lambda>c. product_id c \<noteq> pid) (colors db)\<rparr>"
    by (simp_all add: delete_product_def)
  moreover have "pid \<notin> prod_id ` set (products db')" "pid \<notin> product_id ` set (colors db')"
    by (auto simp: db')
  ultimately show ?thesis using True by simp
next
  case False
  then have "find (\<lambda>p. prod_id p = pid) (products db) = None"
    by (simp add: find_None_image)
  with assms False show ?thesis by (simp add: delete_product_def)
qed

theorem delete_product_cascade_witness:
  "delete_product 1 shop = (Inr (Reply Urun_silindi None), \<lparr>products = [pants], colors = [black]\<rparr>) \<and>
   1 \<in> prod_id ` set (products shop) \<and>
   1 \<notin> product_id ` set (colors \<lparr>products = [pants], colors = [black]\<rparr>) \<and>
   delete_product 7 shop = (Inl (HTTPException 404 Urun_bulunamadi), shop) \<and>
   7 \<notin> prod_id ` set (products shop)"
  using delete_product_cascade
      [of 1 shop "Inr (Reply Urun_silindi None)" "\<lparr>products = [pants], colors = [black]\<rparr>"]
    delete_product_cascade [of 7 shop "Inl (HTTPException 404 Urun_bulunamadi)" shop]
  by (simp add: delete_product_def concrete_defs)

text \<open>
  C9. \<open>PUT /colors/{id}\<close> for the id of an existing Color succeeds and sets the name,
  price and currency of the Color with that id to the values of the request. The id and
  the \<open>product_id\<close> of every Color stay, every Color with another id stays as it was,
  and the Products stay as they were.
\<close>

theorem update_color_frame:
  assumes "cid \<in> color_id ` set (colors db)"
    and "update_color cid color db = (res, db')"
  shows "res = Inr (Reply Renk_guncellendi None) \<and>
         products db' = products db \<and>
         length (colors db') = length (colors db) \<and>
         (\<forall>i < length (colors db).
            color_id (colors db' ! i) = color_id (colors db ! i) \<and>
            product_id (colors db' ! i) = product_id (colors db ! i) \<and>
            (color_id (colors db ! i) = cid \<longrightarrow>
               color_name (colors db' ! i) = cu_name color \<and>
               price (colors db' ! i) = cu_price color \<and>
               currency (colors db' ! i) = cu_currency color) \<and>
            (color_id (colors db ! i) \<noteq> cid \<longrightarrow> colors db' ! i = colors db ! i))"
proof -
  obtain c where "find (\<lambda>c. color_id c = cid) (colors db) = Some c"
    using find_Some_image [OF assms(1)] by blast
  with assms(2) have res: "res = Inr (Reply Renk_guncellendi None)"
    and db': "db' = db\<lparr>colors := map (\<lambda>c. if color_id c = cid
                                    then c\<lparr>color_name := cu_name color,
                                           price := cu_price color,
                                           currency := cu_currency color\<rparr>
                                    else c) (colors db)\<rparr>"
    by (simp_all add: update_color_def)
  show ?thesis by (simp add: res db')
qed

theorem update_color_frame_witness:
  "2 \<in> color_id ` set (colors shop) \<and>
   update_color 2 \<lparr>cu_name = ascii ''Navy'', cu_price = 11, cu_currency = ascii ''EUR''\<rparr> shop
     = (Inr (Reply Renk_guncellendi None),
        \<lparr>products = [shirt, pants],
         colors = [red,
                   \<lparr>color_id = 2, color_name = ascii ''Navy'', product_id = 1, price = 11,
                    currency = ascii ''EUR''\<rparr>,
                   black]\<rparr>)"
  using update_color_frame
    [of 2 shop "\<lparr>cu_name = ascii ''Navy'', cu_price = 11, cu_currency = ascii ''EUR''\<rparr>"
        "Inr (Reply Renk_guncellendi None)"
        "\<lparr>products = [shirt, pants],
         colors = [red,
                   \<lparr>color_id = 2, color_name = ascii ''Navy'', product_id = 1, price = 11,
                    currency = ascii ''EUR''\<rparr>,
                   black]\<rparr>"]
  by (simp add: update_color_def concrete_defs)


section \<open>Facts about the import loop\<close>














































lemma upload_excel_rejected:
  assumes "\<not> (\<exists>df. accepted read_excel file df)"
  shows "\<exists>d. upload_excel read_excel py_str autoflush store_fault file db
           = (Inl (HTTPException 400 d), db)"
proof (cases "endswith (filename file) (ascii ''.xlsx'')")
  case False
  then show ?thesis by (simp add: upload_excel_def)
next
  case True
  show ?thesis
  proof (cases "read_excel (contents file)")
    case (Inl e)
    with True show ?thesis by (simp add: upload_excel_def)
  next
    case (Inr df)
    with True assms have "\<not> set required_columns \<subseteq> set (map strip (columns df))"
      by (simp add: accepted_def)
    with True Inr show ?thesis by (simp add: upload_excel_def Let_def)
  qed
qed














section \<open>The import on concrete spreadsheets\<close>


text \<open>
  With a session that does not flush before a query, the colour query of the second row
  does not read the pending "Red" of the first: the same loop stores both.
\<close>

lemma shirt_import_without_autoflush:
  "upload_excel (\<lambda>b. Inr shirt_frame) py_str False None urunler_xlsx empty_store
     = (Inr (Reply Excel_yuklendi None),
        \<lparr>products = [shirt],
         colors = [red,
                   \<lparr>color_id = 2, color_name = ascii ''Red'', product_id = 1, price = 12,
                    currency = ascii ''EUR''\<rparr>,
                   \<lparr>color_id = 3, color_name = ascii ''Blue'', product_id = 1, price = 10,
                    currency = ascii ''USD''\<rparr>]\<rparr>)"
  by (simp add: import_defs concrete_defs)

section \<open>The import in general\<close>

text \<open>
  C8. \<open>POST /upload-excel/\<close> fails with status 400 and leaves the store as it was, so
  that no Product and no Color is created, in each of three cases: the file name does not
  end in \<open>.xlsx\<close>; \<open>read_excel\<close> raises; the four required labels are not all among the
  column labels after these were stripped of white space.
\<close>

theorem upload_excel_rejects:
  assumes "\<not> endswith (filename file) (ascii ''.xlsx'') \<or>
           (\<exists>e. read_excel (contents file) = Inl e) \<or>
           (\<exists>df. read_excel (contents file) = Inr df \<and>
                 \<not> set required_columns \<subseteq> set (map strip (columns df)))"
  shows "\<exists>d. upload_excel read_excel py_str autoflush store_fault file db = (Inl (HTTPException 400 d), db) \<and>
             status_code (HTTPException 400 d) = 400"
proof -
  from assms have "\<not> (\<exists>df. accepted read_excel file df)"
    by (auto simp: accepted_def)
  from upload_excel_rejected [OF this] show ?thesis by simp
qed

theorem upload_excel_rejects_witness:
  "upload_excel (\<lambda>b. Inr shirt_frame) str_int session_autoflush None
       \<lparr>filename = ascii ''urunler.xls'', contents = ()\<rparr> shop
     = (Inl (HTTPException 400 Xlsx_formatinda_degil), shop) \<and>
   upload_excel (\<lambda>b. Inl (ascii ''not a zip file'') :: pystr + (int, real) dataframe) str_int session_autoflush None
       urunler_xlsx shop
     = (Inl (HTTPException 400 (Excel_okunamadi (ascii ''not a zip file''))), shop) \<and>
   upload_excel (\<lambda>b. Inr no_currency_frame) str_int session_autoflush None urunler_xlsx shop
     = (Inl (HTTPException 400 Eksik_sutun), shop)"
  using upload_excel_rejects [of "\<lparr>filename = ascii ''urunler.xls'', contents = ()\<rparr>"
      "\<lambda>b. Inr shirt_frame" str_int session_autoflush None shop]
    upload_excel_rejects [of urunler_xlsx
      "\<lambda>b. Inl (ascii ''not a zip file'') :: pystr + (int, real) dataframe" str_int session_autoflush None shop]
    upload_excel_rejects [of urunler_xlsx "\<lambda>b. Inr no_currency_frame" str_int session_autoflush None shop]
  by (simp add: import_defs no_currency_frame_def concrete_defs)











end
